theory Spec2Isabelle
  imports Complex_Main "HOL-Library.Sublist"
begin

section \<open>Strings and clock readings\<close>

text \<open>
  A Python \<open>str\<close> is modelled as a \<open>string\<close>; a \<open>char\<close> stands for the code point of
  the same number, so the model covers the code points below 256.  \<open>isspace\<close> lists the
  code points below 256 that \<open>str.strip()\<close> removes: tab, line feed, vertical tab, form
  feed, carriage return, the four separators 28..31, space, NEL (133) and the no-break
  space (160).
\<close>

definition isspace :: "char \<Rightarrow> bool" where
  "isspace c = (of_char c \<in> {9, 10, 11, 12, 13, 28, 29, 30, 31, 32, 133, 160 :: nat})"

text \<open>\<open>s.strip()\<close>: whitespace is removed at both ends.\<close>

definition strip :: "string \<Rightarrow> string" where
  "strip s = rev (dropWhile isspace (rev (dropWhile isspace s)))"

text \<open>
  \<open>datetime.now()\<close> is a reading of the local wall clock, here a number of microseconds;
  the code stores its \<open>isoformat()\<close> rendering.  \<open>time.time()\<close> is a reading in
  seconds.  Both are inputs of the operations that take them: the code reads the clock,
  it does not control it.
\<close>

type_synonym datetime = nat

text \<open>\<open>str(n)\<close> for an integer: its decimal digits, with a sign when negative.\<close>

fun str_nat :: "nat \<Rightarrow> string" where
  "str_nat n =
     (if n < 10 then [char_of (48 + n)]
      else str_nat (n div 10) @ [char_of (48 + n mod 10)])"

declare str_nat.simps [simp del]

definition str_int :: "int \<Rightarrow> string" where
  "str_int i = (if i < 0 then CHR ''-'' # str_nat (nat (- i)) else str_nat (nat i))"

text \<open>\<open>int(x)\<close> for a float: truncation towards zero.\<close>

definition int_of_float :: "real \<Rightarrow> int" where
  "int_of_float x = (if 0 \<le> x then \<lfloor>x\<rfloor> else \<lceil>x\<rceil>)"

text \<open>
  \<open>xs[i:]\<close> for an integer \<open>i\<close>: a negative \<open>i\<close> counts from the end, and any start
  out of range is clipped.
\<close>

definition slice_from :: "int \<Rightarrow> 'a list \<Rightarrow> 'a list" where
  "slice_from i xs =
     (if i < 0 then drop (length xs - nat (- i)) xs else drop (nat i) xs)"

section \<open>Data model\<close>

text \<open>
  Record fields share one name space, so the fields of \<open>ChatMessage\<close> and
  \<open>ChatResponse\<close> carry the prefixes \<open>cm_\<close> and \<open>cr_\<close>, and those of the server
  object the prefix \<open>srv_\<close> where the agent has a field of the same name.
\<close>

text \<open>An exception raised by Python code, with its \<open>str(e)\<close>.\<close>

datatype py_exception = Exception string

text \<open>\<open>HTTPException(status_code, detail)\<close>.\<close>

datatype http_error = HTTPException nat string

text \<open>
  The dictionary \<open>rag_system.generate_response\<close> returns, as far as its callers read
  it: the keys \<open>response\<close> and \<open>is_mental_health\<close>, taken to be present with a
  string and a boolean, as \<open>ChatResponse\<close> declares them.
\<close>

record response_data =
  response :: string
  is_mental_health :: bool

text \<open>
  A message of a server session: \<open>{"role", "message", "timestamp"}\<close>.  An entry of
  the agent's \<open>conversation_history\<close> has the key \<open>session_id\<close> as well.
\<close>

record turn =
  role :: string
  message :: string
  timestamp :: datetime

record agent_turn = turn +
  session_id :: "string option"

text \<open>A value of the server's \<open>sessions\<close> dictionary.\<close>

record session =
  created_at :: datetime
  messages :: "turn list"

record ChatMessage =
  cm_message :: string
  cm_session_id :: "string option"

record ChatResponse =
  cr_response :: string
  cr_session_id :: string
  cr_is_mental_health :: bool
  cr_response_time :: real
  cr_timestamp :: datetime

text \<open>
  \<open>MentalHealthServer\<close>: \<open>rag_system\<close> is \<open>None\<close> until the startup event has run;
  \<open>sessions\<close> is a dictionary from session ids.  The type \<open>'r\<close> is the state of the
  \<open>MentalHealthRAG\<close> object, whose class is not among the sources.
\<close>

record 'r server =
  srv_rag_system :: "'r option"
  sessions :: "string \<rightharpoonup> session"

text \<open>\<open>MentalHealthAgent\<close>.\<close>

record 'r agent =
  groq_api_key :: string
  rag_system :: 'r
  conversation_history :: "agent_turn list"
  current_session_id :: "string option"
  user_name :: string

text \<open>
  A call \<open>rag_system.generate_response(query)\<close>: it returns the dictionary or raises,
  and may change the object either way.
\<close>

type_synonym 'r generate = "'r \<Rightarrow> string \<Rightarrow> (py_exception + response_data) \<times> 'r"

section \<open>The HTTP server (server.py)\<close>

text \<open>\<open>get_session\<close>: the session with its id, or 404.\<close>

definition get_session :: "string \<Rightarrow> 'r server \<Rightarrow> http_error + string \<times> session" where
  "get_session sid srv =
     (case sessions srv sid of
        None \<Rightarrow> Inl (HTTPException 404 (''Session '' @ sid @ '' not found''))
      | Some s \<Rightarrow> Inr (sid, s))"

text \<open>\<open>delete_session\<close>: 404 when the id is absent, else the entry is removed.\<close>

definition delete_session :: "string \<Rightarrow> 'r server \<Rightarrow> (http_error + string) \<times> 'r server" where
  "delete_session sid srv =
     (case sessions srv sid of
        None \<Rightarrow> (Inl (HTTPException 404 (''Session '' @ sid @ '' not found'')), srv)
      | Some s \<Rightarrow>
          (Inr (''Session '' @ sid @ '' deleted successfully''),
           srv\<lparr>sessions := (sessions srv)(sid := None)\<rparr>))"

text \<open>
  The appends of \<open>chat_endpoint\<close>,
  \<open>self.sessions[session_id]["messages"].append(...)\<close>: a \<open>KeyError\<close> when the id is
  not a key, else the turn goes to the end of the session's list.
\<close>

definition append_message :: "string \<Rightarrow> turn \<Rightarrow> 'r server \<Rightarrow> py_exception + 'r server" where
  "append_message sid t srv =
     (case sessions srv sid of
        None \<Rightarrow> Inl (Exception (CHR 0x27 # sid @ [CHR 0x27]))
      | Some s \<Rightarrow>
          Inr (srv\<lparr>sessions := (sessions srv)(sid \<mapsto> s\<lparr>messages := messages s @ [t]\<rparr>)\<rparr>))"

text \<open>
  The readings \<open>chat_endpoint\<close> takes from its environment, in the order of the code:
  \<open>time.time()\<close> at the start, \<open>str(uuid.uuid4())\<close>, \<open>datetime.now()\<close> for a new
  session, for the user turn and for the assistant turn, \<open>time.time()\<close> at the end and
  \<open>datetime.now()\<close> for the response.
\<close>

record chat_env =
  time_start :: real
  uuid4 :: string
  now_created :: datetime
  now_user :: datetime
  now_assistant :: datetime
  time_end :: real
  now_response :: datetime

text \<open>The \<open>except Exception\<close> clause of \<open>chat_endpoint\<close>.\<close>

definition internal_error :: "py_exception \<Rightarrow> http_error" where
  "internal_error e =
     (case e of Exception msg \<Rightarrow> HTTPException 500 (''Error processing message: '' @ msg))"

text \<open>The \<open>AttributeError\<close> of a call on \<open>self.rag_system\<close> while it is \<open>None\<close>.\<close>

definition none_has_no_generate_response :: py_exception where
  "none_has_no_generate_response =
     Exception (CHR 0x27 # ''NoneType'' @ CHR 0x27 # '' object has no attribute ''
                @ CHR 0x27 # ''generate_response'' @ [CHR 0x27])"

text \<open>
  \<open>chat_message.session_id or str(uuid.uuid4())\<close>: an absent id and the empty string
  are both replaced by the generated one.
\<close>

definition session_id_or_uuid :: "chat_env \<Rightarrow> ChatMessage \<Rightarrow> string" where
  "session_id_or_uuid env chat_message =
     (case cm_session_id chat_message of
        None \<Rightarrow> uuid4 env
      | Some s \<Rightarrow> if s = [] then uuid4 env else s)"

text \<open>
  \<open>chat_endpoint\<close> (POST /chat).  The handler has no \<open>await\<close>, so it runs from its
  first statement to its last without another handler in between.  What it has written
  before an exception stays written.
\<close>

definition chat_endpoint ::
  "'r generate \<Rightarrow> chat_env \<Rightarrow> ChatMessage \<Rightarrow> 'r server \<Rightarrow> (http_error + ChatResponse) \<times> 'r server"
where
  "chat_endpoint generate_response env chat_message srv =
     (let sid = session_id_or_uuid env chat_message;
          srv1 = (case sessions srv sid of
                    None \<Rightarrow>
                      srv\<lparr>sessions := (sessions srv)
                            (sid \<mapsto> \<lparr>created_at = now_created env, messages = []\<rparr>)\<rparr>
                  | Some s \<Rightarrow> srv)
      in case append_message sid
                \<lparr>role = ''user'', message = cm_message chat_message,
                 timestamp = now_user env\<rparr> srv1 of
           Inl e \<Rightarrow> (Inl (internal_error e), srv1)
         | Inr srv2 \<Rightarrow>
             (case srv_rag_system srv2 of
                None \<Rightarrow> (Inl (internal_error none_has_no_generate_response), srv2)
              | Some rag \<Rightarrow>
                  (case generate_response rag (cm_message chat_message) of
                     (Inl e, rag') \<Rightarrow>
                       (Inl (internal_error e), srv2\<lparr>srv_rag_system := Some rag'\<rparr>)
                   | (Inr response_data, rag') \<Rightarrow>
                       (case append_message sid
                               \<lparr>role = ''assistant'', message = response response_data,
                                timestamp = now_assistant env\<rparr>
                               (srv2\<lparr>srv_rag_system := Some rag'\<rparr>) of
                          Inl e \<Rightarrow>
                            (Inl (internal_error e), srv2\<lparr>srv_rag_system := Some rag'\<rparr>)
                        | Inr srv3 \<Rightarrow>
                            (Inr \<lparr>cr_response = response response_data,
                                  cr_session_id = sid,
                                  cr_is_mental_health = is_mental_health response_data,
                                  cr_response_time = time_end env - time_start env,
                                  cr_timestamp = now_response env\<rparr>,
                             srv3)))))"

section \<open>The command-line agent (agent.py)\<close>

text \<open>
  The methods are named as in the source, without the leading underscore of
  \<open>_add_to_history\<close> and \<open>_get_conversation_context\<close>.  What a method prints is not
  modelled.
\<close>

definition add_to_history :: "datetime \<Rightarrow> string \<Rightarrow> string \<Rightarrow> 'r agent \<Rightarrow> 'r agent" where
  "add_to_history now r m a =
     a\<lparr>conversation_history :=
         conversation_history a
         @ [\<lparr>role = r, message = m, timestamp = now, session_id = current_session_id a\<rparr>]\<rparr>"

definition greeting :: string where
  "greeting = ''Hi there! I'' @ CHR 0x27 # ''m your mental health assistant. How can I support you today?''"

text \<open>
  \<open>start_new_chat\<close>, with the reading of \<open>time.time()\<close> and the one of
  \<open>datetime.now()\<close> for the greeting.
\<close>

definition start_new_chat :: "real \<Rightarrow> datetime \<Rightarrow> 'r agent \<Rightarrow> 'r agent" where
  "start_new_chat t now a =
     add_to_history now ''system'' greeting
       (a\<lparr>current_session_id := Some (''session_'' @ str_int (int_of_float t)),
          conversation_history := []\<rparr>)"

definition clear_history :: "'r agent \<Rightarrow> 'r agent" where
  "clear_history a = a\<lparr>conversation_history := []\<rparr>"

text \<open>The list comprehension of \<open>_get_conversation_context\<close>.\<close>

definition recent_messages :: "int \<Rightarrow> agent_turn list \<Rightarrow> agent_turn list" where
  "recent_messages max_messages history =
     filter (\<lambda>msg. role msg \<in> set [''user'', ''assistant''])
       (slice_from (- max_messages) history)"

text \<open>One pass of its loop: \<open>context += f"{speaker}: {msg['message']}\n"\<close>.\<close>

definition add_line :: "string \<Rightarrow> agent_turn \<Rightarrow> string" where
  "add_line context msg =
     context @ (if role msg = ''user'' then ''USER'' else ''ASSISTANT'')
       @ '': '' @ message msg @ [CHR 0x0A]"

definition get_conversation_context :: "int \<Rightarrow> 'r agent \<Rightarrow> string" where
  "get_conversation_context max_messages a =
     (if conversation_history a = [] then []
      else foldl add_line (''Recent conversation context:'' @ [CHR 0x0A])
             (recent_messages max_messages (conversation_history a)))"

text \<open>
  \<open>process_message\<close>, with the readings of \<open>datetime.now()\<close> for the user turn and
  for the assistant turn.  The method has no \<open>try\<close>: an exception of
  \<open>generate_response\<close> leaves it, after the user turn has been recorded.  The response
  time it measures is not used.
\<close>

definition process_message ::
  "'r generate \<Rightarrow> datetime \<Rightarrow> datetime \<Rightarrow> string \<Rightarrow> 'r agent \<Rightarrow> (py_exception + string) \<times> 'r agent"
where
  "process_message generate_response now_u now_a user_input a =
     (if strip user_input = [] then (Inr ''Please type something to chat with me.'', a)
      else
        let a1 = add_to_history now_u ''user'' user_input a;
            conversation_context = get_conversation_context 10 a1;
            contextual_query =
              (if conversation_context \<noteq> []
               then conversation_context @ [CHR 0x0A] @ ''Current query: '' @ user_input
               else user_input)
        in case generate_response (rag_system a1) contextual_query of
             (Inl e, rag') \<Rightarrow> (Inl e, a1\<lparr>rag_system := rag'\<rparr>)
           | (Inr response_data, rag') \<Rightarrow>
               (Inr (response response_data),
                add_to_history now_a ''assistant'' (response response_data)
                  (a1\<lparr>rag_system := rag'\<rparr>)))"

section \<open>The generation pipeline (rag.py), from the specification\<close>

text \<open>
  Modelled from the spec: the result of \<open>DomainClassifier.classify\<close> (section 4.2), the
  in-domain flag and the crisis sub-case named by section 4.4; \<open>rag.py\<close>, which holds
  the classifier, is not among the sources.
\<close>

record classification =
  in_domain :: bool
  crisis :: bool

text \<open>
  Modelled from the spec: the capabilities and the fixed configuration of the pipeline of
  \<open>rag.py\<close> (class \<open>MentalHealthRAG\<close>, not among the sources).  \<open>classify\<close> is the
  DomainClassifier, \<open>retrieve\<close> the KnowledgeStore's retrieval, \<open>build\<close> the
  ContextAssembler, \<open>complete\<close> the completion capability of section 6, which may
  raise; \<open>crisis_resource\<close> is the fixed crisis-resource text and
  \<open>fallback_message\<close> the fixed fallback message of section 4.4.
\<close>

record pipeline =
  classify :: "string \<Rightarrow> classification"
  retrieve :: "string \<Rightarrow> string list"
  build :: "string list \<Rightarrow> string \<Rightarrow> string"
  complete :: "string \<Rightarrow> py_exception + string"
  crisis_resource :: string
  fallback_message :: string

text \<open>
  Modelled from the spec: the prompt of the data flow of section 2 (\<open>rag.py\<close> is not
  among the sources): knowledge is retrieved for an in-domain query only, and the
  assembler builds the prompt from the snippets and the query.
\<close>

definition spec_prompt :: "pipeline \<Rightarrow> string \<Rightarrow> string" where
  "spec_prompt p query =
     build p (if in_domain (classify p query) then retrieve p query else []) query"

text \<open>
  Modelled from the spec: the post-processing rules of \<open>ResponseGenerator.generate\<close>
  (section 4.4; \<open>rag.py\<close> is not among the sources), in their order: for a crisis
  query the crisis-resource text is added on a line of its own when the completion does
  not contain it; then leading and trailing whitespace is trimmed.
\<close>

definition post_process :: "string \<Rightarrow> bool \<Rightarrow> string \<Rightarrow> string" where
  "post_process resource is_crisis raw =
     strip (if is_crisis \<and> \<not> sublist resource raw then raw @ [CHR 0x0A] @ resource
            else raw)"

text \<open>
  Modelled from the spec: \<open>MentalHealthRAG.generate_response\<close> (\<open>rag.py\<close>, not among
  the sources), as sections 2 and 4.4 describe it: classify, build the prompt, call the
  completion capability; a completion that raises gives the fixed fallback message, any
  other is post-processed.  The in-domain flag is the classifier's either way.
\<close>

definition spec_generate_response :: "pipeline \<Rightarrow> string \<Rightarrow> response_data" where
  "spec_generate_response p query =
     (case complete p (spec_prompt p query) of
        Inl e \<Rightarrow>
          \<lparr>response = fallback_message p,
           is_mental_health = in_domain (classify p query)\<rparr>
      | Inr raw \<Rightarrow>
          \<lparr>response = post_process (crisis_resource p) (crisis (classify p query)) raw,
           is_mental_health = in_domain (classify p query)\<rparr>)"

text \<open>
  Modelled from the spec: the same as the call the front ends make on the RAG object
  (\<open>rag.py\<close> is not among the sources); it never raises and leaves the object as it is.
\<close>

definition spec_rag :: "pipeline \<Rightarrow> 'r generate" where
  "spec_rag p rag query = (Inr (spec_generate_response p query), rag)"

section \<open>Concrete inputs\<close>

text \<open>
  A stand-in for the RAG object in concrete evaluations: its state counts the calls of
  \<open>generate_response\<close>, and every call answers \<open>ok\<close>.
\<close>

definition counting_rag :: "nat generate" where
  "counting_rag n query = (Inr \<lparr>response = ''ok'', is_mental_health = False\<rparr>, Suc n)"

definition agent0 :: "nat agent" where
  "agent0 = \<lparr>groq_api_key = ''key'', rag_system = 0, conversation_history = [],
              current_session_id = None, user_name = ''User''\<rparr>"

definition server0 :: "nat server" where
  "server0 = \<lparr>srv_rag_system = Some 0, sessions = Map.empty\<rparr>"

definition env1 :: chat_env where
  "env1 = \<lparr>time_start = 100, uuid4 = ''u1'', now_created = 1, now_user = 2,
           now_assistant = 3, time_end = 102, now_response = 4\<rparr>"

definition env2 :: chat_env where
  "env2 = \<lparr>time_start = 200, uuid4 = ''u2'', now_created = 11, now_user = 12,
           now_assistant = 13, time_end = 203, now_response = 14\<rparr>"

text \<open>An agent whose history holds three turns: user, assistant, user.\<close>

definition history3 :: "nat agent" where
  "history3 = add_to_history 3 ''user'' ''c''
                (add_to_history 2 ''assistant'' ''b'' (add_to_history 1 ''user'' ''a'' agent0))"

text \<open>The server after one call, and after a second one in the same session.\<close>

definition server1 :: "nat server" where
  "server1 = \<lparr>srv_rag_system = Some 1,
     sessions = [''u1'' \<mapsto> \<lparr>created_at = 1,
        messages = [\<lparr>role = ''user'', message = ''hello'', timestamp = 2\<rparr>,
                    \<lparr>role = ''assistant'', message = ''ok'', timestamp = 3\<rparr>]\<rparr>]\<rparr>"

definition server2 :: "nat server" where
  "server2 = \<lparr>srv_rag_system = Some 2,
     sessions = [''u1'' \<mapsto> \<lparr>created_at = 1,
        messages = [\<lparr>role = ''user'', message = ''hello'', timestamp = 2\<rparr>,
                    \<lparr>role = ''assistant'', message = ''ok'', timestamp = 3\<rparr>,
                    \<lparr>role = ''user'', message = ''more'', timestamp = 12\<rparr>,
                    \<lparr>role = ''assistant'', message = ''ok'', timestamp = 13\<rparr>]\<rparr>]\<rparr>"

text \<open>
  A pipeline whose completion leaves the crisis resource out, and one whose completion
  capability is down.
\<close>

definition pipeline0 :: pipeline where
  "pipeline0 = \<lparr>classify = (\<lambda>q. \<lparr>in_domain = True, crisis = True\<rparr>),
                retrieve = (\<lambda>q. []),
                build = (\<lambda>snippets q. q),
                complete = (\<lambda>prompt. Inr ''  Stay safe. ''),
                crisis_resource = ''Call or text 988.'',
                fallback_message = ''Sorry, something went wrong.''\<rparr>"

definition pipeline_down :: pipeline where
  "pipeline_down = pipeline0\<lparr>complete := (\<lambda>prompt. Inl (Exception ''timeout''))\<rparr>"


section \<open>Whitespace\<close>

lemma all_dropWhile_iff: "(\<forall>x\<in>set (dropWhile P s). P x) \<longleftrightarrow> (\<forall>x\<in>set s. P x)"
proof
  assume a: "\<forall>x\<in>set (dropWhile P s). P x"
  have "set s = set (takeWhile P s) \<union> set (dropWhile P s)"
    by (metis set_append takeWhile_dropWhile_id)
  with a show "\<forall>x\<in>set s. P x"
    by (auto dest: set_takeWhileD)
next
  assume "\<forall>x\<in>set s. P x"
  then show "\<forall>x\<in>set (dropWhile P s). P x"
    by (auto dest: set_dropWhileD)
qed

text \<open>A string is blank for \<open>not s.strip()\<close> exactly when all its characters are whitespace.\<close>

lemma strip_Nil_iff: "strip s = [] \<longleftrightarrow> (\<forall>c\<in>set s. isspace c)"
  by (simp add: strip_def all_dropWhile_iff)





text \<open>The session id of a chat started at the clock reading 1700000000.\<close>

lemma digit_chars:
  "char_of (48::nat) = CHR ''0''" "char_of (49::nat) = CHR ''1''" "char_of (55::nat) = CHR ''7''"
  by code_simp+

lemma session_id_example: "str_int (int_of_float 1700000000) = ''1700000000''"
  by (simp add: str_int_def int_of_float_def str_nat.simps digit_chars)

section \<open>The agent: blank input, and what each method leaves alone\<close>

text \<open>
  C9: for every input of \<open>process_message\<close> that is empty or has whitespace only, the
  agent is returned as it was: no user turn and no assistant turn is appended (the
  conversation history, like every other field, is unchanged), and the reply is the
  fixed one.  The generator is a free variable: it is not called.
\<close>

theorem blank_input_leaves_agent_unchanged:
  "\<forall>c\<in>set user_input. isspace c \<Longrightarrow>
   process_message generate_response now_u now_a user_input a
     = (Inr ''Please type something to chat with me.'', a)"
  by (simp add: process_message_def strip_Nil_iff)

theorem blank_input_leaves_agent_unchanged_witness:
  "isspace (CHR '' '') \<and> isspace (CHR 0x09) \<and> isspace (CHR 0x0A)
   \<and> process_message counting_rag 7 8 [CHR '' '', CHR 0x09, CHR 0x0A]
        (start_new_chat 1700000000 5 agent0)
     = (Inr ''Please type something to chat with me.'', start_new_chat 1700000000 5 agent0)"
proof -
  have ws: "\<forall>c\<in>set [CHR '' '', CHR 0x09, CHR 0x0A]. isspace c"
    by (simp add: isspace_def)
  from blank_input_leaves_agent_unchanged [OF ws] ws show ?thesis by simp
qed

text \<open>
  C10: \<open>clear_history\<close> changes the conversation history, to the empty list, and no
  other field: the current session id and the RAG object with its knowledge store are
  as before.  Neither \<open>_add_to_history\<close> nor \<open>process_message\<close> assigns the session
  id; \<open>start_new_chat\<close> does, from the clock reading it takes.
\<close>

theorem clear_history_frame:
  "clear_history a = a\<lparr>conversation_history := []\<rparr>
   \<and> conversation_history (clear_history a) = []
   \<and> current_session_id (clear_history a) = current_session_id a
   \<and> rag_system (clear_history a) = rag_system a
   \<and> current_session_id (add_to_history now r m a) = current_session_id a
   \<and> current_session_id (snd (process_message generate_response now_u now_a user_input a))
       = current_session_id a
   \<and> current_session_id (start_new_chat t now a)
       = Some (''session_'' @ str_int (int_of_float t))"
  by (simp add: clear_history_def add_to_history_def process_message_def start_new_chat_def
      Let_def split: prod.splits sum.splits)

section \<open>Sessions: deletion\<close>

text \<open>
  C6: for every session id, \<open>get_session\<close> after \<open>delete_session\<close> of the same id
  fails with the not-found error (404), and \<open>delete_session\<close> itself fails with that
  error, leaving the server unchanged, when the id is not in the store (never created, or
  deleted before).
\<close>

theorem delete_then_get_not_found:
  "get_session sid (snd (delete_session sid srv))
     = Inl (HTTPException 404 (''Session '' @ sid @ '' not found''))
   \<and> (sessions srv sid = None \<longrightarrow>
        delete_session sid srv
          = (Inl (HTTPException 404 (''Session '' @ sid @ '' not found'')), srv))
   \<and> (sessions (snd (delete_session sid srv)) sid = None)"
  by (simp add: get_session_def delete_session_def split: option.splits)

theorem delete_then_get_not_found_witness:
  "fst (delete_session ''u1'' server1) = Inr ''Session u1 deleted successfully''
   \<and> get_session ''u1'' (snd (delete_session ''u1'' server1))
       = Inl (HTTPException 404 ''Session u1 not found'')
   \<and> sessions (snd (delete_session ''u1'' server1)) ''u1'' = None
   \<and> delete_session ''u1'' (snd (delete_session ''u1'' server1))
       = (Inl (HTTPException 404 ''Session u1 not found''),
          snd (delete_session ''u1'' server1))"
proof -
  have d: "fst (delete_session ''u1'' server1) = Inr ''Session u1 deleted successfully''"
    by (simp add: delete_session_def server1_def)
  from delete_then_get_not_found [of "''u1''" server1]
    delete_then_get_not_found [of "''u1''" "snd (delete_session ''u1'' server1)"] d
  show ?thesis by simp
qed

section \<open>The chat endpoint\<close>

text \<open>
  A call of \<open>chat_endpoint\<close> that returns a response, read backwards: the RAG object
  was there, its \<open>generate_response\<close> returned, and the session of the call was
  created if need be and has the two turns of the call at its end.
\<close>

lemma chat_endpoint_Inr:
  assumes "chat_endpoint g env cm srv = (Inr r, srv')"
  shows "\<exists>rag rd rag'.
           srv_rag_system srv = Some rag
         \<and> g rag (cm_message cm) = (Inr rd, rag')
         \<and> r = \<lparr>cr_response = response rd,
                 cr_session_id = session_id_or_uuid env cm,
                 cr_is_mental_health = is_mental_health rd,
                 cr_response_time = time_end env - time_start env,
                 cr_timestamp = now_response env\<rparr>
         \<and> srv' = \<lparr>srv_rag_system = Some rag',
                    sessions = (sessions srv)(session_id_or_uuid env cm \<mapsto>
                      \<lparr>created_at = (case sessions srv (session_id_or_uuid env cm) of
                                        None \<Rightarrow> now_created env | Some s \<Rightarrow> created_at s),
                       messages = (case sessions srv (session_id_or_uuid env cm) of
                                        None \<Rightarrow> [] | Some s \<Rightarrow> messages s)
                         @ [\<lparr>role = ''user'', message = cm_message cm, timestamp = now_user env\<rparr>,
                            \<lparr>role = ''assistant'', message = response rd,
                             timestamp = now_assistant env\<rparr>]\<rparr>)\<rparr>"
  using assms
  by (cases srv)
     (auto simp: chat_endpoint_def append_message_def Let_def
           split: option.splits sum.splits prod.splits)

text \<open>And forwards: with the RAG object there and its call returning, the endpoint returns.\<close>

lemma chat_endpoint_succeeds:
  assumes "srv_rag_system srv = Some rag" and "g rag (cm_message cm) = (Inr rd, rag')"
  shows "chat_endpoint g env cm srv =
          (Inr \<lparr>cr_response = response rd,
                 cr_session_id = session_id_or_uuid env cm,
                 cr_is_mental_health = is_mental_health rd,
                 cr_response_time = time_end env - time_start env,
                 cr_timestamp = now_response env\<rparr>,
           \<lparr>srv_rag_system = Some rag',
                    sessions = (sessions srv)(session_id_or_uuid env cm \<mapsto>
                      \<lparr>created_at = (case sessions srv (session_id_or_uuid env cm) of
                                        None \<Rightarrow> now_created env | Some s \<Rightarrow> created_at s),
                       messages = (case sessions srv (session_id_or_uuid env cm) of
                                        None \<Rightarrow> [] | Some s \<Rightarrow> messages s)
                         @ [\<lparr>role = ''user'', message = cm_message cm, timestamp = now_user env\<rparr>,
                            \<lparr>role = ''assistant'', message = response rd,
                             timestamp = now_assistant env\<rparr>]\<rparr>)\<rparr>)"
  using assms
  by (cases srv)
     (auto simp: chat_endpoint_def append_message_def Let_def
           split: option.splits sum.splits prod.splits)

text \<open>
  When \<open>generate_response\<close> raises, the endpoint answers 500 with the exception's text,
  and the user turn it has appended stays in the session.
\<close>

lemma chat_endpoint_generate_raises:
  assumes "srv_rag_system srv = Some rag"
    and "g rag (cm_message cm) = (Inl (Exception msg), rag')"
  shows "fst (chat_endpoint g env cm srv)
           = Inl (HTTPException 500 (''Error processing message: '' @ msg))"
    and "sessions (snd (chat_endpoint g env cm srv)) (session_id_or_uuid env cm)
           = Some \<lparr>created_at = (case sessions srv (session_id_or_uuid env cm) of
                                   None \<Rightarrow> now_created env | Some s \<Rightarrow> created_at s),
                   messages = (case sessions srv (session_id_or_uuid env cm) of
                                   None \<Rightarrow> [] | Some s \<Rightarrow> messages s)
                     @ [\<lparr>role = ''user'', message = cm_message cm,
                         timestamp = now_user env\<rparr>]\<rparr>"
  using assms
  by (cases srv;
      auto simp: chat_endpoint_def append_message_def internal_error_def Let_def
           split: option.splits sum.splits prod.splits)+

text \<open>
  C7: every call of \<open>chat_endpoint\<close> that succeeds returns a \<open>ChatResponse\<close>, the
  record of the five fields response, session id, in-domain flag, response time and
  timestamp: the response and the flag are those of the RAG object's answer, the
  response time is the difference of the two clock readings, and the session of that id
  is in the store afterwards.  When the request carries no session id, the id returned
  is the generated one, and, that id being new to the store, the session is created by
  this call and holds its two turns.
\<close>

theorem chat_endpoint_response:
  "chat_endpoint g env cm srv = (Inr r, srv') \<Longrightarrow>
     (\<exists>rag rd rag'.
         srv_rag_system srv = Some rag
       \<and> g rag (cm_message cm) = (Inr rd, rag')
       \<and> r = \<lparr>cr_response = response rd,
               cr_session_id = session_id_or_uuid env cm,
               cr_is_mental_health = is_mental_health rd,
               cr_response_time = time_end env - time_start env,
               cr_timestamp = now_response env\<rparr>)
   \<and> sessions srv' (cr_session_id r) \<noteq> None
   \<and> (cm_session_id cm = None \<longrightarrow>
        cr_session_id r = uuid4 env
      \<and> (sessions srv (uuid4 env) = None \<longrightarrow>
           sessions srv' (uuid4 env)
             = Some \<lparr>created_at = now_created env,
                     messages = [\<lparr>role = ''user'', message = cm_message cm,
                                  timestamp = now_user env\<rparr>,
                                 \<lparr>role = ''assistant'', message = cr_response r,
                                  timestamp = now_assistant env\<rparr>]\<rparr>))"
  by (drule chat_endpoint_Inr) (auto simp: session_id_or_uuid_def)

theorem chat_endpoint_response_witness:
  "chat_endpoint counting_rag env1 \<lparr>cm_message = ''hello'', cm_session_id = None\<rparr> server0
     = (Inr \<lparr>cr_response = ''ok'', cr_session_id = ''u1'', cr_is_mental_health = False,
             cr_response_time = 2, cr_timestamp = 4\<rparr>,
        \<lparr>srv_rag_system = Some 1,
         sessions = [''u1'' \<mapsto> \<lparr>created_at = 1,
            messages = [\<lparr>role = ''user'', message = ''hello'', timestamp = 2\<rparr>,
                        \<lparr>role = ''assistant'', message = ''ok'', timestamp = 3\<rparr>]\<rparr>]\<rparr>)
   \<and> cm_session_id \<lparr>cm_message = ''hello'', cm_session_id = None\<rparr> = None
   \<and> sessions server0 (uuid4 env1) = None"
proof -
  have ev: "chat_endpoint counting_rag env1 \<lparr>cm_message = ''hello'', cm_session_id = None\<rparr> server0
     = (Inr \<lparr>cr_response = ''ok'', cr_session_id = ''u1'', cr_is_mental_health = False,
             cr_response_time = 2, cr_timestamp = 4\<rparr>,
        \<lparr>srv_rag_system = Some 1,
         sessions = [''u1'' \<mapsto> \<lparr>created_at = 1,
            messages = [\<lparr>role = ''user'', message = ''hello'', timestamp = 2\<rparr>,
                        \<lparr>role = ''assistant'', message = ''ok'', timestamp = 3\<rparr>]\<rparr>]\<rparr>)"
    by (simp add: chat_endpoint_def session_id_or_uuid_def append_message_def counting_rag_def
        env1_def server0_def Let_def)
  from chat_endpoint_response [OF ev] ev show ?thesis
    by (simp add: server0_def)
qed

text \<open>
  C3, on the HTTP path: the message of three spaces is blank for \<open>str.strip()\<close>, and
  \<open>chat_endpoint\<close> does not stop at it.  It creates the session, appends the blank
  user turn, calls \<open>generate_response\<close> (the counter of calls goes from 0 to 1) and
  returns the generator's answer, not a fixed reply.  \<open>process_message\<close> of the agent
  is the path that has the guard.
\<close>

theorem chat_endpoint_blank_message:
  "strip ''   '' = []
   \<and> chat_endpoint counting_rag env1 \<lparr>cm_message = ''   '', cm_session_id = None\<rparr> server0
     = (Inr \<lparr>cr_response = ''ok'', cr_session_id = ''u1'', cr_is_mental_health = False,
             cr_response_time = 2, cr_timestamp = 4\<rparr>,
        \<lparr>srv_rag_system = Some 1,
         sessions = [''u1'' \<mapsto> \<lparr>created_at = 1,
            messages = [\<lparr>role = ''user'', message = ''   '', timestamp = 2\<rparr>,
                        \<lparr>role = ''assistant'', message = ''ok'', timestamp = 3\<rparr>]\<rparr>]\<rparr>)"
  by (simp add: chat_endpoint_def session_id_or_uuid_def append_message_def counting_rag_def
        env1_def server0_def Let_def strip_def isspace_def)

section \<open>The conversation context\<close>

text \<open>The loop of \<open>_get_conversation_context\<close> adds one line per message, in order.\<close>

lemma foldl_add_line:
  "foldl add_line ctx ms = ctx @ concat (map (add_line []) ms)"
  by (induction ms arbitrary: ctx) (simp_all add: add_line_def)

lemma get_conversation_context_lines:
  "conversation_history a \<noteq> [] \<Longrightarrow>
   get_conversation_context n a
     = ''Recent conversation context:'' @ [CHR 0x0A]
       @ concat (map (add_line []) (recent_messages n (conversation_history a)))"
  by (simp add: get_conversation_context_def foldl_add_line)

text \<open>
  For a positive bound the messages of the context are the user and assistant turns
  among the last \<open>n\<close> entries of the history, of any role: at most \<open>n\<close> of them, and the
  last ones of the user and assistant turns of the history, in their order.
\<close>

lemma recent_messages_positive:
  assumes "0 < n"
  shows "recent_messages n h
           = filter (\<lambda>msg. role msg = ''user'' \<or> role msg = ''assistant'')
               (drop (length h - nat n) h)"
    and "length (recent_messages n h) \<le> nat n"
    and "suffix (recent_messages n h)
           (filter (\<lambda>msg. role msg = ''user'' \<or> role msg = ''assistant'') h)"
proof -
  show eq: "recent_messages n h
           = filter (\<lambda>msg. role msg = ''user'' \<or> role msg = ''assistant'')
               (drop (length h - nat n) h)"
    using assms by (simp add: recent_messages_def slice_from_def)
  have "length (recent_messages n h) \<le> length (drop (length h - nat n) h)"
    unfolding eq by (rule length_filter_le)
  then show "length (recent_messages n h) \<le> nat n" by simp
  have "suffix (drop (length h - nat n) h) h" by (rule suffix_drop)
  then show "suffix (recent_messages n h)
           (filter (\<lambda>msg. role msg = ''user'' \<or> role msg = ''assistant'') h)"
    unfolding eq by (rule filter_mono_suffix)
qed

text \<open>
  C4, at the bound 0: the slice \<open>conversation_history[-0:]\<close> is the whole list, so the
  context of a history of three turns holds all three, where the claim allows none.  At
  the bound 1 it holds the last turn only.
\<close>

theorem context_with_bound_zero:
  "get_conversation_context 0 history3
     = ''Recent conversation context:'' @ [CHR 0x0A]
       @ ''USER: a'' @ [CHR 0x0A] @ ''ASSISTANT: b'' @ [CHR 0x0A] @ ''USER: c'' @ [CHR 0x0A]
   \<and> get_conversation_context 1 history3
     = ''Recent conversation context:'' @ [CHR 0x0A] @ ''USER: c'' @ [CHR 0x0A]"
  by (simp add: get_conversation_context_def recent_messages_def slice_from_def add_line_def
      history3_def add_to_history_def agent0_def)

section \<open>Histories grow at the end\<close>

text \<open>
  C8, as amended: an append (\<open>_add_to_history\<close> of the agent, the appends of
  \<open>chat_endpoint\<close>) puts the new turn at the end of the history and leaves the turns
  before it as they were, so the history is in creation order and its length grows by
  exactly one.  The timestamps are strictly increasing after the append exactly when
  they were before and the clock reading of the new turn is later than all of them; the
  code stores the reading of \<open>datetime.now()\<close> as it comes.
\<close>

theorem append_keeps_turns:
  "conversation_history (add_to_history now r m a)
     = conversation_history a
       @ [\<lparr>role = r, message = m, timestamp = now, session_id = current_session_id a\<rparr>]
   \<and> length (conversation_history (add_to_history now r m a))
       = length (conversation_history a) + 1
   \<and> (sorted_wrt (<) (map timestamp (conversation_history (add_to_history now r m a)))
        \<longleftrightarrow> sorted_wrt (<) (map timestamp (conversation_history a))
           \<and> (\<forall>t\<in>set (conversation_history a). timestamp t < now))
   \<and> (append_message sid t srv = Inr srv' \<longrightarrow>
        (\<exists>s. sessions srv sid = Some s
           \<and> sessions srv' = (sessions srv)(sid \<mapsto> s\<lparr>messages := messages s @ [t]\<rparr>)
           \<and> length (messages (the (sessions srv' sid))) = length (messages s) + 1
           \<and> (sorted_wrt (<) (map timestamp (messages (the (sessions srv' sid))))
                \<longleftrightarrow> sorted_wrt (<) (map timestamp (messages s))
                   \<and> (\<forall>u\<in>set (messages s). timestamp u < timestamp t))))"
  by (auto simp: add_to_history_def append_message_def sorted_wrt_append
           split: option.splits)

theorem append_keeps_turns_witness:
  "append_message ''u1'' \<lparr>role = ''user'', message = ''more'', timestamp = 12\<rparr> server1
     = Inr \<lparr>srv_rag_system = Some 1,
            sessions = [''u1'' \<mapsto> \<lparr>created_at = 1,
          messages = [\<lparr>role = ''user'', message = ''hello'', timestamp = 2\<rparr>,
                      \<lparr>role = ''assistant'', message = ''ok'', timestamp = 3\<rparr>,
                      \<lparr>role = ''user'', message = ''more'', timestamp = 12\<rparr>]\<rparr>]\<rparr>
   \<and> conversation_history history3
     = [\<lparr>role = ''user'', message = ''a'', timestamp = 1, session_id = None\<rparr>,
        \<lparr>role = ''assistant'', message = ''b'', timestamp = 2, session_id = None\<rparr>,
        \<lparr>role = ''user'', message = ''c'', timestamp = 3, session_id = None\<rparr>]
   \<and> length (conversation_history (add_to_history 4 ''assistant'' ''d'' history3)) = 4
   \<and> sorted_wrt (<) (map timestamp
         (conversation_history (add_to_history 4 ''assistant'' ''d'' history3)))"
proof -
  have ev: "append_message ''u1'' \<lparr>role = ''user'', message = ''more'', timestamp = 12\<rparr> server1
     = Inr \<lparr>srv_rag_system = Some 1,
            sessions = [''u1'' \<mapsto> \<lparr>created_at = 1,
          messages = [\<lparr>role = ''user'', message = ''hello'', timestamp = 2\<rparr>,
                      \<lparr>role = ''assistant'', message = ''ok'', timestamp = 3\<rparr>,
                      \<lparr>role = ''user'', message = ''more'', timestamp = 12\<rparr>]\<rparr>]\<rparr>"
    by (simp add: append_message_def server1_def)
  have h: "conversation_history history3
     = [\<lparr>role = ''user'', message = ''a'', timestamp = 1, session_id = None\<rparr>,
        \<lparr>role = ''assistant'', message = ''b'', timestamp = 2, session_id = None\<rparr>,
        \<lparr>role = ''user'', message = ''c'', timestamp = 3, session_id = None\<rparr>]"
    by (simp add: history3_def add_to_history_def agent0_def)
  from append_keeps_turns [of 4 "''assistant''" "''d''" history3 "''u1''"
      "\<lparr>role = ''user'', message = ''more'', timestamp = 12\<rparr>" server1] ev h
  show ?thesis by simp
qed

text \<open>
  C8 as stated fails when the wall clock is set back between two appends (a clock
  adjustment, or the end of daylight saving time, \<open>datetime.now()\<close> being local time):
  the readings 5 and then 3 give a history whose timestamps are not ordered.
\<close>

theorem timestamps_follow_the_clock:
  "\<not> sorted_wrt (<) (map timestamp (conversation_history
        (add_to_history 3 ''assistant'' ''b'' (add_to_history 5 ''user'' ''a'' agent0))))"
  by (simp add: add_to_history_def agent0_def)

section \<open>Two calls in one session\<close>

text \<open>
  A call of \<open>process_message\<close> with an input that is not blank, when the generator
  returns, appends the user turn and the assistant turn and keeps the session id.
\<close>

lemma process_message_nonblank:
  assumes "strip user_input \<noteq> []"
    and "process_message g now_u now_a user_input a = (Inr x, a')"
  shows "conversation_history a'
          = conversation_history a
            @ [\<lparr>role = ''user'', message = user_input, timestamp = now_u,
                session_id = current_session_id a\<rparr>,
               \<lparr>role = ''assistant'', message = x, timestamp = now_a,
                session_id = current_session_id a\<rparr>]
       \<and> current_session_id a' = current_session_id a"
  using assms
  by (auto simp: process_message_def add_to_history_def Let_def
           split: prod.splits sum.splits)

text \<open>
  C5, as amended.  On the server: when a first call of \<open>chat_endpoint\<close> succeeds in a
  session that was not in the store before it, and a second call with the session id
  the first one returned succeeds, \<open>get_session\<close> gives exactly four turns: user and
  assistant of the first call, then user and assistant of the second.  In the agent: a
  chat begun by \<open>start_new_chat\<close> holds the greeting as a system turn, so after two
  calls of \<open>process_message\<close> that return, with inputs that are not blank, the
  history holds five turns: the greeting, then the two user and two assistant turns in
  call order.
\<close>

theorem two_calls_history:
  "(chat_endpoint g e1 cm1 srv = (Inr r1, srv1)
      \<and> sessions srv (cr_session_id r1) = None
      \<and> cr_session_id r1 \<noteq> []
      \<and> chat_endpoint g e2 \<lparr>cm_message = m2, cm_session_id = Some (cr_session_id r1)\<rparr> srv1
          = (Inr r2, srv2)
    \<longrightarrow> cr_session_id r2 = cr_session_id r1
      \<and> get_session (cr_session_id r1) srv2
          = Inr (cr_session_id r1,
                 \<lparr>created_at = now_created e1,
                  messages =
                    [\<lparr>role = ''user'', message = cm_message cm1, timestamp = now_user e1\<rparr>,
                     \<lparr>role = ''assistant'', message = cr_response r1,
                      timestamp = now_assistant e1\<rparr>,
                     \<lparr>role = ''user'', message = m2, timestamp = now_user e2\<rparr>,
                     \<lparr>role = ''assistant'', message = cr_response r2,
                      timestamp = now_assistant e2\<rparr>]\<rparr>))
   \<and> (strip u1 \<noteq> [] \<and> strip u2 \<noteq> []
      \<and> process_message g' t1 t2 u1 (start_new_chat t now a) = (Inr x1, a1)
      \<and> process_message g' t3 t4 u2 a1 = (Inr x2, a2)
    \<longrightarrow> conversation_history a2
          = [\<lparr>role = ''system'', message = greeting, timestamp = now,
              session_id = Some (''session_'' @ str_int (int_of_float t))\<rparr>,
             \<lparr>role = ''user'', message = u1, timestamp = t1,
              session_id = Some (''session_'' @ str_int (int_of_float t))\<rparr>,
             \<lparr>role = ''assistant'', message = x1, timestamp = t2,
              session_id = Some (''session_'' @ str_int (int_of_float t))\<rparr>,
             \<lparr>role = ''user'', message = u2, timestamp = t3,
              session_id = Some (''session_'' @ str_int (int_of_float t))\<rparr>,
             \<lparr>role = ''assistant'', message = x2, timestamp = t4,
              session_id = Some (''session_'' @ str_int (int_of_float t))\<rparr>])"
proof (intro conjI impI)
  assume s: "chat_endpoint g e1 cm1 srv = (Inr r1, srv1)
      \<and> sessions srv (cr_session_id r1) = None
      \<and> cr_session_id r1 \<noteq> []
      \<and> chat_endpoint g e2 \<lparr>cm_message = m2, cm_session_id = Some (cr_session_id r1)\<rparr> srv1
          = (Inr r2, srv2)"
  from s have c1: "chat_endpoint g e1 cm1 srv = (Inr r1, srv1)" by simp
  from s have fresh: "sessions srv (cr_session_id r1) = None" by simp
  from s have ne: "cr_session_id r1 \<noteq> []" by simp
  from s have c2: "chat_endpoint g e2 \<lparr>cm_message = m2, cm_session_id = Some (cr_session_id r1)\<rparr> srv1
          = (Inr r2, srv2)" by simp
  from chat_endpoint_Inr [OF c1] fresh
  have s1: "sessions srv1 (cr_session_id r1)
       = Some \<lparr>created_at = now_created e1,
               messages = [\<lparr>role = ''user'', message = cm_message cm1, timestamp = now_user e1\<rparr>,
                     \<lparr>role = ''assistant'', message = cr_response r1,
                      timestamp = now_assistant e1\<rparr>]\<rparr>"
    by auto
  have sid2: "session_id_or_uuid e2 \<lparr>cm_message = m2, cm_session_id = Some (cr_session_id r1)\<rparr>
                = cr_session_id r1"
    using ne by (simp add: session_id_or_uuid_def)
  from chat_endpoint_Inr [OF c2] s1 sid2
  show "cr_session_id r2 = cr_session_id r1" by auto
  from chat_endpoint_Inr [OF c2] s1 sid2
  show "get_session (cr_session_id r1) srv2
          = Inr (cr_session_id r1,
                 \<lparr>created_at = now_created e1,
                  messages =
                    [\<lparr>role = ''user'', message = cm_message cm1, timestamp = now_user e1\<rparr>,
                     \<lparr>role = ''assistant'', message = cr_response r1,
                      timestamp = now_assistant e1\<rparr>,
                     \<lparr>role = ''user'', message = m2, timestamp = now_user e2\<rparr>,
                     \<lparr>role = ''assistant'', message = cr_response r2,
                      timestamp = now_assistant e2\<rparr>]\<rparr>)"
    by (auto simp: get_session_def)
next
  assume s: "strip u1 \<noteq> [] \<and> strip u2 \<noteq> []
      \<and> process_message g' t1 t2 u1 (start_new_chat t now a) = (Inr x1, a1)
      \<and> process_message g' t3 t4 u2 a1 = (Inr x2, a2)"
  have h0: "conversation_history (start_new_chat t now a)
     = [\<lparr>role = ''system'', message = greeting, timestamp = now,
              session_id = Some (''session_'' @ str_int (int_of_float t))\<rparr>]"
    and i0: "current_session_id (start_new_chat t now a)
         = Some (''session_'' @ str_int (int_of_float t))"
    by (simp_all add: start_new_chat_def add_to_history_def)
  from s have p1: "process_message g' t1 t2 u1 (start_new_chat t now a) = (Inr x1, a1)"
    and n1: "strip u1 \<noteq> []" by simp_all
  from s have p2: "process_message g' t3 t4 u2 a1 = (Inr x2, a2)"
    and n2: "strip u2 \<noteq> []" by simp_all
  from process_message_nonblank [OF n1 p1] h0 i0
  have h1: "conversation_history a1
     = [\<lparr>role = ''system'', message = greeting, timestamp = now,
              session_id = Some (''session_'' @ str_int (int_of_float t))\<rparr>,
             \<lparr>role = ''user'', message = u1, timestamp = t1,
              session_id = Some (''session_'' @ str_int (int_of_float t))\<rparr>,
             \<lparr>role = ''assistant'', message = x1, timestamp = t2,
              session_id = Some (''session_'' @ str_int (int_of_float t))\<rparr>]"
    and i1: "current_session_id a1 = Some (''session_'' @ str_int (int_of_float t))"
    by auto
  from process_message_nonblank [OF n2 p2] h1 i1
  show "conversation_history a2
          = [\<lparr>role = ''system'', message = greeting, timestamp = now,
              session_id = Some (''session_'' @ str_int (int_of_float t))\<rparr>,
             \<lparr>role = ''user'', message = u1, timestamp = t1,
              session_id = Some (''session_'' @ str_int (int_of_float t))\<rparr>,
             \<lparr>role = ''assistant'', message = x1, timestamp = t2,
              session_id = Some (''session_'' @ str_int (int_of_float t))\<rparr>,
             \<lparr>role = ''user'', message = u2, timestamp = t3,
              session_id = Some (''session_'' @ str_int (int_of_float t))\<rparr>,
             \<lparr>role = ''assistant'', message = x2, timestamp = t4,
              session_id = Some (''session_'' @ str_int (int_of_float t))\<rparr>]"
    by auto
qed

theorem two_calls_history_witness:
  "chat_endpoint counting_rag env1 \<lparr>cm_message = ''hello'', cm_session_id = None\<rparr> server0
     = (Inr \<lparr>cr_response = ''ok'', cr_session_id = ''u1'', cr_is_mental_health = False,
             cr_response_time = 2, cr_timestamp = 4\<rparr>, server1)
   \<and> sessions server0 ''u1'' = None
   \<and> chat_endpoint counting_rag env2 \<lparr>cm_message = ''more'', cm_session_id = Some ''u1''\<rparr> server1
     = (Inr \<lparr>cr_response = ''ok'', cr_session_id = ''u1'', cr_is_mental_health = False,
             cr_response_time = 3, cr_timestamp = 14\<rparr>, server2)
   \<and> get_session ''u1'' server2
     = Inr (''u1'', \<lparr>created_at = 1,
        messages = [\<lparr>role = ''user'', message = ''hello'', timestamp = 2\<rparr>,
                    \<lparr>role = ''assistant'', message = ''ok'', timestamp = 3\<rparr>,
                    \<lparr>role = ''user'', message = ''more'', timestamp = 12\<rparr>,
                    \<lparr>role = ''assistant'', message = ''ok'', timestamp = 13\<rparr>]\<rparr>)
   \<and> strip ''hi'' \<noteq> [] \<and> strip ''there'' \<noteq> []
   \<and> fst (process_message counting_rag 2 3 ''hi'' (start_new_chat 1700000000 1 agent0))
       = Inr ''ok''
   \<and> fst (process_message counting_rag 4 5 ''there''
           (snd (process_message counting_rag 2 3 ''hi'' (start_new_chat 1700000000 1 agent0))))
       = Inr ''ok''
   \<and> conversation_history
        (snd (process_message counting_rag 4 5 ''there''
           (snd (process_message counting_rag 2 3 ''hi'' (start_new_chat 1700000000 1 agent0)))))
       = [\<lparr>role = ''system'', message = greeting, timestamp = 1,
           session_id = Some ''session_1700000000''\<rparr>,
          \<lparr>role = ''user'', message = ''hi'', timestamp = 2,
           session_id = Some ''session_1700000000''\<rparr>,
          \<lparr>role = ''assistant'', message = ''ok'', timestamp = 3,
           session_id = Some ''session_1700000000''\<rparr>,
          \<lparr>role = ''user'', message = ''there'', timestamp = 4,
           session_id = Some ''session_1700000000''\<rparr>,
          \<lparr>role = ''assistant'', message = ''ok'', timestamp = 5,
           session_id = Some ''session_1700000000''\<rparr>]"
proof -
  let ?r1 = "\<lparr>cr_response = ''ok'', cr_session_id = ''u1'', cr_is_mental_health = False,
             cr_response_time = 2, cr_timestamp = 4\<rparr>"
  let ?r2 = "\<lparr>cr_response = ''ok'', cr_session_id = ''u1'', cr_is_mental_health = False,
             cr_response_time = 3, cr_timestamp = 14\<rparr>"
  let ?a0 = "start_new_chat 1700000000 1 agent0 :: nat agent"
  let ?p1 = "process_message counting_rag 2 3 ''hi'' ?a0"
  let ?p2 = "process_message counting_rag 4 5 ''there'' (snd ?p1)"
  have c1: "chat_endpoint counting_rag env1 \<lparr>cm_message = ''hello'', cm_session_id = None\<rparr> server0
     = (Inr ?r1, server1)"
    by (simp add: chat_endpoint_def session_id_or_uuid_def append_message_def counting_rag_def
        env1_def server0_def server1_def Let_def)
  have fresh: "sessions server0 ''u1'' = None"
    by (simp add: server0_def)
  have c2: "chat_endpoint counting_rag env2 \<lparr>cm_message = ''more'', cm_session_id = Some ''u1''\<rparr> server1
     = (Inr ?r2, server2)"
    by (simp add: chat_endpoint_def session_id_or_uuid_def append_message_def counting_rag_def
        env2_def server1_def server2_def Let_def)
  have n1: "strip ''hi'' \<noteq> []" and n2: "strip ''there'' \<noteq> []"
    by (simp_all add: strip_def isspace_def)
  have f1: "fst ?p1 = Inr ''ok''"
    using n1 by (simp add: process_message_def counting_rag_def Let_def)
  have f2: "fst ?p2 = Inr ''ok''"
    using n2 by (simp add: process_message_def counting_rag_def Let_def)
  have p1: "?p1 = (Inr ''ok'', snd ?p1)"
    using f1 by (metis prod.collapse)
  have p2: "?p2 = (Inr ''ok'', snd ?p2)"
    using f2 by (metis prod.collapse)
  from two_calls_history
    [where g = counting_rag and ?e1.0 = env1
       and ?cm1.0 = "\<lparr>cm_message = ''hello'', cm_session_id = None\<rparr>"
       and srv = server0 and ?r1.0 = ?r1 and ?srv1.0 = server1 and ?e2.0 = env2
       and ?m2.0 = "''more''" and ?r2.0 = ?r2 and ?srv2.0 = server2
       and ?u1.0 = "''hi''" and ?u2.0 = "''there''" and g' = counting_rag
       and ?t1.0 = 2 and ?t2.0 = 3 and t = 1700000000 and now = 1 and a = agent0
       and ?x1.0 = "''ok''" and ?a1.0 = "snd ?p1" and ?t3.0 = 4 and ?t4.0 = 5
       and ?x2.0 = "''ok''" and ?a2.0 = "snd ?p2"]
    c1 fresh c2 n1 n2 p1 p2 f1 f2
  show ?thesis
    by (simp add: env1_def env2_def session_id_example)
qed

text \<open>
  C5 as stated fails in the agent.  After \<open>start_new_chat\<close> and two calls with the
  inputs \<open>hi\<close> and \<open>there\<close> the history has five turns, the first of the role
  system.  And two calls whose input is the single space, which is not empty, leave an
  empty history empty.
\<close>

theorem agent_session_has_greeting:
  "map role (conversation_history
      (snd (process_message counting_rag 4 5 ''there''
         (snd (process_message counting_rag 2 3 ''hi''
            (start_new_chat 1700000000 1 agent0))))))
     = [''system'', ''user'', ''assistant'', ''user'', ''assistant'']
   \<and> conversation_history
        (snd (process_message counting_rag 4 5 '' ''
           (snd (process_message counting_rag 2 3 '' '' agent0)))) = []"
  by (simp add: process_message_def start_new_chat_def add_to_history_def counting_rag_def
      agent0_def strip_def isspace_def Let_def)

section \<open>The pipeline of the specification\<close>




text \<open>A completion that raises makes the call on the RAG object return the fallback.\<close>

lemma spec_rag_completion_error:
  "complete p (spec_prompt p q) = Inl e \<Longrightarrow>
   spec_rag p rag q
     = (Inr \<lparr>response = fallback_message p, is_mental_health = in_domain (classify p q)\<rparr>, rag)"
  by (simp add: spec_rag_def spec_generate_response_def)

text \<open>
  C2, with the pipeline as the specification describes it behind \<open>chat_endpoint\<close>:
  when the completion capability raises on the prompt of the message, the endpoint on a
  started server returns a \<open>ChatResponse\<close>, not an error; its response is the fixed
  fallback message, which is not empty, and its in-domain flag is the classifier's.
\<close>

theorem completion_error_gives_fallback:
  assumes "srv_rag_system srv = Some rag"
    and "complete p (spec_prompt p (cm_message cm)) = Inl e"
    and "fallback_message p \<noteq> []"
  shows "\<exists>r. fst (chat_endpoint (spec_rag p) env cm srv) = Inr r
           \<and> r = \<lparr>cr_response = fallback_message p,
                   cr_session_id = session_id_or_uuid env cm,
                   cr_is_mental_health = in_domain (classify p (cm_message cm)),
                   cr_response_time = time_end env - time_start env,
                   cr_timestamp = now_response env\<rparr>
           \<and> cr_response r \<noteq> []"
proof -
  have g: "spec_rag p rag (cm_message cm)
     = (Inr \<lparr>response = fallback_message p,
             is_mental_health = in_domain (classify p (cm_message cm))\<rparr>, rag)"
    using assms(2) by (rule spec_rag_completion_error)
  from assms(1) g assms(3) show ?thesis
    by (simp add: chat_endpoint_succeeds [where g = "spec_rag p" and rag = rag and rag' = rag])
qed

theorem completion_error_gives_fallback_witness:
  "srv_rag_system server0 = Some 0
   \<and> complete pipeline_down
        (spec_prompt pipeline_down (cm_message \<lparr>cm_message = ''hello'', cm_session_id = None\<rparr>))
       = Inl (Exception ''timeout'')
   \<and> fallback_message pipeline_down \<noteq> []
   \<and> fst (chat_endpoint (spec_rag pipeline_down) env1
            \<lparr>cm_message = ''hello'', cm_session_id = None\<rparr> server0)
       = Inr \<lparr>cr_response = ''Sorry, something went wrong.'', cr_session_id = ''u1'',
              cr_is_mental_health = True, cr_response_time = 2, cr_timestamp = 4\<rparr>"
proof -
  have a: "srv_rag_system server0 = Some 0" by (simp add: server0_def)
  have b: "complete pipeline_down
        (spec_prompt pipeline_down (cm_message \<lparr>cm_message = ''hello'', cm_session_id = None\<rparr>))
       = Inl (Exception ''timeout'')"
    by (simp add: pipeline_down_def)
  have c: "fallback_message pipeline_down \<noteq> []"
    by (simp add: pipeline_down_def pipeline0_def)
  have d: "\<lparr>cr_response = fallback_message pipeline_down,
             cr_session_id = session_id_or_uuid env1 \<lparr>cm_message = ''hello'', cm_session_id = None\<rparr>,
             cr_is_mental_health = in_domain (classify pipeline_down
                 (cm_message \<lparr>cm_message = ''hello'', cm_session_id = None\<rparr>)),
             cr_response_time = time_end env1 - time_start env1,
             cr_timestamp = now_response env1\<rparr>
        = \<lparr>cr_response = ''Sorry, something went wrong.'', cr_session_id = ''u1'',
              cr_is_mental_health = True, cr_response_time = 2, cr_timestamp = 4\<rparr>"
    by (simp add: pipeline_down_def pipeline0_def env1_def session_id_or_uuid_def)
  from completion_error_gives_fallback [OF a b c, of env1]
  have "fst (chat_endpoint (spec_rag pipeline_down) env1
            \<lparr>cm_message = ''hello'', cm_session_id = None\<rparr> server0)
       = Inr \<lparr>cr_response = ''Sorry, something went wrong.'', cr_session_id = ''u1'',
              cr_is_mental_health = True, cr_response_time = 2, cr_timestamp = 4\<rparr>"
    unfolding d by blast
  with a b c show ?thesis by blast
qed

text \<open>
  The same for the agent: with a completion capability that raises on every prompt,
  \<open>process_message\<close> returns the fallback message for every input that is not blank.
\<close>

lemma process_message_completion_error:
  assumes "strip user_input \<noteq> []" and "\<And>q. \<exists>e. complete p q = Inl e"
  shows "fst (process_message (spec_rag p) now_u now_a user_input a)
           = Inr (fallback_message p)"
proof -
  have r: "spec_rag p rag q
     = (Inr \<lparr>response = fallback_message p, is_mental_health = in_domain (classify p q)\<rparr>, rag)"
    for rag q
  proof -
    from assms(2) obtain e where "complete p (spec_prompt p q) = Inl e" by blast
    then show ?thesis
      by (rule spec_rag_completion_error)
  qed
  from assms(1) show ?thesis
    by (simp add: process_message_def Let_def r)
qed

end
